theory Spec2Isabelle
  imports Main
begin

section \<open>Data model\<close>

text \<open>
  A calendar date as Python's \<^verbatim>\<open>datetime.date\<close> holds it: year, month and day.
\<close>

record date =
  year :: nat
  month :: nat
  day :: nat

text \<open>
  Modelled from the spec: the declarations of \<^verbatim>\<open>src/schemas.py\<close> and
  \<^verbatim>\<open>src/database/models.py\<close>, which the repository imports and the sources do not hold.
  \<^verbatim>\<open>ContactModel\<close>, the request body of \<^verbatim>\<open>create\<close> and \<^verbatim>\<open>update\<close>, has the seven
  attributes of a contact that the spec lists; they are the seven that \<^verbatim>\<open>update\<close> reads
  from the body.
\<close>

record contact_model =
  firstname :: string
  lastname :: string
  email :: string
  phone :: string
  birthday :: date
  additional_info :: string
  is_favorite :: bool

text \<open>
  A row of the \<^verbatim>\<open>Contact\<close> table: the body's fields, the primary key (\<^verbatim>\<open>Contact.id\<close>,
  here \<open>cid\<close>) and the foreign key \<^verbatim>\<open>Contact.user_id\<close>.
  \<^verbatim>\<open>Contact(**body.dict(), user_id=user.id)\<close> extends the body by these two.
\<close>

record contact = contact_model +
  cid :: int
  user_id :: int

text \<open>\<^verbatim>\<open>ContactFavoriteModel\<close>, the body of \<^verbatim>\<open>set_favorite\<close>: the flag alone.\<close>

record contact_favorite_model =
  favorite :: bool

text \<open>
  A row of the \<^verbatim>\<open>User\<close> table, with the attributes the repository reads and writes
  (\<^verbatim>\<open>User.id\<close> is \<open>uid\<close>, \<^verbatim>\<open>User.email\<close> is \<open>user_email\<close>).
\<close>

record user =
  uid :: int
  user_email :: string
  password :: string
  refresh_token :: "string option"
  password_reset_token :: "string option"
  confirmed :: bool
  avatar :: "string option"

text \<open>
  The database behind a \<^verbatim>\<open>Session\<close>: both tables in storage order, and the sequence
  that the storage draws the generated \<^verbatim>\<open>Contact.id\<close> of a new row from, as an
  autoincrement primary key does. Every repository function takes the database and
  returns it, updated, next to its result; the model follows the runs in which the
  storage commits.
\<close>

record db =
  contacts :: "contact list"
  users :: "user list"
  contact_seq :: int

text \<open>The storage's sequence is ahead of every primary key in the table.\<close>

definition fresh_seq :: "db \<Rightarrow> bool" where
  "fresh_seq d = list_all (\<lambda>c. cid c < contact_seq d) (contacts d)"

section \<open>Contact repository\<close>

text \<open>
  \<^verbatim>\<open>db.query(Contact).filter(and_(Contact.user_id == user.id, Contact.id == contact_id)).first()\<close>
\<close>

definition get_contact_by_id :: "user \<Rightarrow> int \<Rightarrow> db \<Rightarrow> contact option" where
  "get_contact_by_id usr contact_id d =
     find (\<lambda>c. user_id c = uid usr \<and> cid c = contact_id) (contacts d)"

text \<open>
  \<^verbatim>\<open>create\<close>: the new row carries the body's fields and the caller's id; the storage
  gives it the next id of the sequence, and \<^verbatim>\<open>db.refresh\<close> reads the row back.
\<close>

definition create :: "user \<Rightarrow> contact_model \<Rightarrow> db \<Rightarrow> contact \<times> db" where
  "create usr body d =
     (let c = \<lparr>firstname = firstname body,
               lastname = lastname body,
               email = email body,
               phone = phone body,
               birthday = birthday body,
               additional_info = additional_info body,
               is_favorite = is_favorite body,
               cid = contact_seq d,
               user_id = uid usr\<rparr>
      in (c, d\<lparr>contacts := contacts d @ [c], contact_seq := contact_seq d + 1\<rparr>))"

text \<open>The seven assignments of \<^verbatim>\<open>update\<close>, in the source's order.\<close>

definition assign_fields :: "contact_model \<Rightarrow> contact \<Rightarrow> contact" where
  "assign_fields body c =
     c\<lparr>firstname := firstname body,
       lastname := lastname body,
       email := email body,
       phone := phone body,
       birthday := birthday body,
       additional_info := additional_info body,
       is_favorite := is_favorite body\<rparr>"

text \<open>
  \<^verbatim>\<open>update\<close>: when the lookup finds a row, the assignments are made on it and the commit
  writes them to the row of that primary key; the function returns what the lookup
  returned (the changed row, or nothing).
\<close>

definition update :: "user \<Rightarrow> int \<Rightarrow> contact_model \<Rightarrow> db \<Rightarrow> contact option \<times> db" where
  "update usr contact_id body d =
     (case get_contact_by_id usr contact_id d of
        None \<Rightarrow> (None, d)
      | Some c \<Rightarrow>
          (Some (assign_fields body c),
           d\<lparr>contacts :=
               map (\<lambda>r. if cid r = cid c then assign_fields body r else r) (contacts d)\<rparr>))"

text \<open>\<^verbatim>\<open>remove\<close>: the row of the found primary key is deleted; the found row is returned.\<close>

definition remove :: "user \<Rightarrow> int \<Rightarrow> db \<Rightarrow> contact option \<times> db" where
  "remove usr contact_id d =
     (case get_contact_by_id usr contact_id d of
        None \<Rightarrow> (None, d)
      | Some c \<Rightarrow> (Some c, d\<lparr>contacts := filter (\<lambda>r. cid r \<noteq> cid c) (contacts d)\<rparr>))"

text \<open>\<^verbatim>\<open>set_favorite\<close>: one assignment, \<^verbatim>\<open>contact.is_favorite = body.is_favorite\<close>.\<close>

definition set_favorite ::
    "user \<Rightarrow> int \<Rightarrow> contact_favorite_model \<Rightarrow> db \<Rightarrow> contact option \<times> db" where
  "set_favorite usr contact_id body d =
     (case get_contact_by_id usr contact_id d of
        None \<Rightarrow> (None, d)
      | Some c \<Rightarrow>
          (Some (c\<lparr>is_favorite := favorite body\<rparr>),
           d\<lparr>contacts :=
               map (\<lambda>r. if cid r = cid c then r\<lparr>is_favorite := favorite body\<rparr> else r)
                 (contacts d)\<rparr>))"

text \<open>
  The mutating calls of the contact repository, each with the authenticated caller, and
  the database after one call and after a sequence of calls.
\<close>

datatype op =
    Create user contact_model
  | Update user int contact_model
  | Remove user int
  | Set_favorite user int contact_favorite_model

fun step :: "op \<Rightarrow> db \<Rightarrow> db" where
  "step (Create usr body) d = snd (create usr body d)"
| "step (Update usr contact_id body) d = snd (update usr contact_id body d)"
| "step (Remove usr contact_id) d = snd (remove usr contact_id d)"
| "step (Set_favorite usr contact_id body) d = snd (set_favorite usr contact_id body d)"

fun run :: "op list \<Rightarrow> db \<Rightarrow> db" where
  "run [] d = d"
| "run (x # xs) d = run xs (step x d)"

text \<open>
  The creations of a sequence of calls: for each \<open>Create\<close>, the id of the contact that
  \<^verbatim>\<open>create\<close> returned, with the id of the user who called it.
\<close>

fun created :: "op \<Rightarrow> db \<Rightarrow> (int \<times> int) list" where
  "created (Create usr body) d = [(cid (fst (create usr body d)), uid usr)]"
| "created _ d = []"

fun creations :: "op list \<Rightarrow> db \<Rightarrow> (int \<times> int) list" where
  "creations [] d = []"
| "creations (x # xs) d = created x d @ creations xs (step x d)"

text \<open>The primary key and the owner of a row.\<close>

definition ownership :: "contact \<Rightarrow> int \<times> int" where
  "ownership c = (cid c, user_id c)"

section \<open>User repository\<close>

text \<open>
  What a call can raise: Python's \<^verbatim>\<open>AttributeError\<close> (an attribute of \<^verbatim>\<open>None\<close>), and the
  routes' \<^verbatim>\<open>HTTPException\<close> with its status code and detail.
\<close>

datatype error = AttributeError | HTTPException nat string

text \<open>\<^verbatim>\<open>db.query(User).filter_by(email=email).first()\<close>\<close>

definition get_user_by_email :: "string \<Rightarrow> db \<Rightarrow> user option" where
  "get_user_by_email mail d = find (\<lambda>u. user_email u = mail) (users d)"

text \<open>
  \<^verbatim>\<open>confirmed_email\<close> assigns \<^verbatim>\<open>user.confirmed = True\<close> on what the lookup returned, with
  no test of it: on \<^verbatim>\<open>None\<close> the assignment raises.
\<close>

definition confirmed_email :: "string \<Rightarrow> db \<Rightarrow> error + db" where
  "confirmed_email mail d =
     (case get_user_by_email mail d of
        None \<Rightarrow> Inl AttributeError
      | Some u \<Rightarrow>
          Inr (d\<lparr>users :=
                 map (\<lambda>r. if uid r = uid u then r\<lparr>confirmed := True\<rparr> else r) (users d)\<rparr>))"

text \<open>\<^verbatim>\<open>update_avatar\<close>: the same shape, \<^verbatim>\<open>user.avatar = url\<close>, and the user is returned.\<close>

definition update_avatar :: "string \<Rightarrow> string \<Rightarrow> db \<Rightarrow> error + user \<times> db" where
  "update_avatar mail url d =
     (case get_user_by_email mail d of
        None \<Rightarrow> Inl AttributeError
      | Some u \<Rightarrow>
          Inr (u\<lparr>avatar := Some url\<rparr>,
               d\<lparr>users :=
                 map (\<lambda>r. if uid r = uid u then r\<lparr>avatar := Some url\<rparr> else r) (users d)\<rparr>))"

section \<open>Search\<close>

subsection \<open>The calendar\<close>

definition leap_year :: "nat \<Rightarrow> bool" where
  "leap_year y = (y mod 4 = 0 \<and> (y mod 100 \<noteq> 0 \<or> y mod 400 = 0))"

definition days_in_month :: "nat \<Rightarrow> nat \<Rightarrow> nat" where
  "days_in_month y m =
     (if m = 2 then (if leap_year y then 29 else 28)
      else if m = 4 \<or> m = 6 \<or> m = 9 \<or> m = 11 then 30
      else 31)"

definition valid_date :: "date \<Rightarrow> bool" where
  "valid_date dt =
     (1 \<le> month dt \<and> month dt \<le> 12 \<and> 1 \<le> day dt \<and> day dt \<le> days_in_month (year dt) (month dt))"

definition next_day :: "date \<Rightarrow> date" where
  "next_day dt =
     (if day dt < days_in_month (year dt) (month dt) then dt\<lparr>day := day dt + 1\<rparr>
      else if month dt < 12 then dt\<lparr>month := month dt + 1, day := 1\<rparr>
      else \<lparr>year = year dt + 1, month = 1, day = 1\<rparr>)"

text \<open>\<^verbatim>\<open>today + timedelta(days=n)\<close> for a count \<open>n\<close> of days.\<close>

fun add_days :: "date \<Rightarrow> nat \<Rightarrow> date" where
  "add_days dt 0 = dt"
| "add_days dt (Suc n) = add_days (next_day dt) n"

text \<open>Month and day of a date, the year ignored.\<close>

definition month_day :: "date \<Rightarrow> nat \<times> nat" where
  "month_day dt = (month dt, day dt)"

subsection \<open>The search repository\<close>

text \<open>
  Modelled from the spec: the repository function \<^verbatim>\<open>get_birthday_list\<close> of
  \<^verbatim>\<open>src/repository/search.py\<close>, which the route calls and the sources do not hold. The
  spec's \<^verbatim>\<open>birthday_window(shift_days)\<close> returns every owned contact whose birthday
  (month and day, ignoring the year) falls within today .. today + shift_days, both
  ends included. The days of the window are counted off from today, \<open>shift + 1\<close> of them,
  so a window that runs past 31 December continues on 1 January; a negative shift
  leaves no day. Today's date comes from the clock and is a parameter here.
\<close>

fun days_from :: "date \<Rightarrow> nat \<Rightarrow> date list" where
  "days_from dt 0 = []"
| "days_from dt (Suc n) = dt # days_from (next_day dt) n"

definition window :: "date \<Rightarrow> int \<Rightarrow> date list" where
  "window today shift = days_from today (nat (shift + 1))"

definition birthday_window :: "date \<Rightarrow> user \<Rightarrow> int \<Rightarrow> db \<Rightarrow> contact list" where
  "birthday_window today usr shift d =
     filter (\<lambda>c. user_id c = uid usr \<and>
                 month_day (birthday c) \<in> set (map month_day (window today shift)))
       (contacts d)"

text \<open>Lower case of the letters A..Z; every other character is left as it is.\<close>

definition lower_char :: "char \<Rightarrow> char" where
  "lower_char c =
     (let n = (of_char c :: nat) in if 65 \<le> n \<and> n \<le> 90 then char_of (n + 32) else c)"

definition lower :: "string \<Rightarrow> string" where
  "lower s = map lower_char s"

text \<open>\<open>starts_with s t\<close>: \<open>t\<close> is a prefix of \<open>s\<close>. \<open>contains s t\<close>: Python's \<^verbatim>\<open>t in s\<close>.\<close>

fun starts_with :: "string \<Rightarrow> string \<Rightarrow> bool" where
  "starts_with s [] = True"
| "starts_with [] (y # ys) = False"
| "starts_with (x # xs) (y # ys) = (x = y \<and> starts_with xs ys)"

fun contains :: "string \<Rightarrow> string \<Rightarrow> bool" where
  "contains [] t = (t = [])"
| "contains (x # xs) t = (starts_with (x # xs) t \<or> contains xs t)"

text \<open>
  Modelled from the spec: the repository function \<^verbatim>\<open>get_users_by_partial_info\<close> of
  \<^verbatim>\<open>src/repository/search.py\<close>, which the route calls and the sources do not hold. The
  spec's \<^verbatim>\<open>partial_match(text)\<close> returns every owned contact where the text is a
  case-insensitive substring of firstname or lastname or email or phone.
\<close>

definition matches :: "string \<Rightarrow> string \<Rightarrow> bool" where
  "matches partial_info field = contains (lower field) (lower partial_info)"

definition partial_match :: "user \<Rightarrow> string \<Rightarrow> db \<Rightarrow> contact list" where
  "partial_match usr partial_info d =
     filter (\<lambda>c. user_id c = uid usr \<and>
                 (matches partial_info (firstname c) \<or> matches partial_info (lastname c) \<or>
                  matches partial_info (email c) \<or> matches partial_info (phone c)))
       (contacts d)"

subsection \<open>The routes\<close>

text \<open>
  The routes of \<^verbatim>\<open>src/routes/search.py\<close>. Each calls its repository function (the
  parameter \<open>repo\<close>, which may return \<^verbatim>\<open>None\<close>) for the authenticated user and raises
  a 404 exactly when the result \<^verbatim>\<open>is None\<close>.
\<close>

definition get_birthday_list ::
    "(user \<Rightarrow> int \<Rightarrow> db \<Rightarrow> contact list option) \<Rightarrow> int \<Rightarrow> db \<Rightarrow> user \<Rightarrow> error + contact list" where
  "get_birthday_list repo shift d current_user =
     (case repo current_user shift d of
        None \<Rightarrow> Inl (HTTPException 404 ''Not Found'')
      | Some found \<Rightarrow> Inr found)"

definition find_contacts_by_partial_info ::
    "(user \<Rightarrow> string \<Rightarrow> db \<Rightarrow> contact list option) \<Rightarrow> string \<Rightarrow> db \<Rightarrow> user \<Rightarrow> error + contact list" where
  "find_contacts_by_partial_info repo partial_info d current_user =
     (case repo current_user partial_info d of
        None \<Rightarrow> Inl (HTTPException 404 ''Users not found'')
      | Some found \<Rightarrow> Inr found)"

text \<open>The routes over the repository functions of the spec, which always return a list.\<close>

definition birthday_route :: "date \<Rightarrow> int \<Rightarrow> db \<Rightarrow> user \<Rightarrow> error + contact list" where
  "birthday_route today =
     get_birthday_list (\<lambda>usr shift d. Some (birthday_window today usr shift d))"

definition partial_info_route :: "string \<Rightarrow> db \<Rightarrow> user \<Rightarrow> error + contact list" where
  "partial_info_route =
     find_contacts_by_partial_info (\<lambda>usr partial_info d. Some (partial_match usr partial_info d))"

section \<open>Example data\<close>

definition user_a :: user where
  "user_a = \<lparr>uid = 1, user_email = ''a@example.com'', password = ''x'',
     refresh_token = None, password_reset_token = None, confirmed = False, avatar = None\<rparr>"

definition user_b :: user where
  "user_b = \<lparr>uid = 2, user_email = ''b@example.com'', password = ''y'',
     refresh_token = None, password_reset_token = None, confirmed = False, avatar = None\<rparr>"

definition anna :: contact_model where
  "anna = \<lparr>firstname = ''Anna'', lastname = ''Smith'', email = ''anna@x.com'',
     phone = ''555-0101'', birthday = \<lparr>year = 1990, month = 12, day = 25\<rparr>,
     additional_info = ''friend'', is_favorite = False\<rparr>"

definition bob :: contact_model where
  "bob = \<lparr>firstname = ''Bob'', lastname = ''Jones'', email = ''bobsmith@x.com'',
     phone = ''555-0102'', birthday = \<lparr>year = 1985, month = 1, day = 5\<rparr>,
     additional_info = ''colleague'', is_favorite = True\<rparr>"

definition carol :: contact_model where
  "carol = \<lparr>firstname = ''Carol'', lastname = ''Smythe'', email = ''carol@x.com'',
     phone = ''555-0103'', birthday = \<lparr>year = 2000, month = 7, day = 14\<rparr>,
     additional_info = ''neighbour'', is_favorite = False\<rparr>"

definition empty_db :: db where
  "empty_db = \<lparr>contacts = [], users = [], contact_seq = 1\<rparr>"

text \<open>User A creates three contacts in the empty database; user B has none.\<close>

definition db_a :: db where
  "db_a = run [Create user_a anna, Create user_a bob, Create user_a carol] empty_db"

section \<open>Lookups in the contact table\<close>

lemma find_map_same:
  "(\<And>x. x \<in> set xs \<Longrightarrow> P (f x) = P x) \<Longrightarrow> find P (map f xs) = map_option f (find P xs)"
  by (induction xs) auto

lemma find_filter_None:
  "(\<And>x. x \<in> set xs \<Longrightarrow> P x \<Longrightarrow> \<not> Q x) \<Longrightarrow> find P (filter Q xs) = None"
  by (induction xs) auto

lemma find_append_fresh:
  "(\<And>x. x \<in> set xs \<Longrightarrow> \<not> P x) \<Longrightarrow> P y \<Longrightarrow> find P (xs @ [y]) = Some y"
  by (induction xs) auto

lemma find_SomeD: "find P xs = Some x \<Longrightarrow> P x \<and> x \<in> set xs"
  by (induction xs) (auto split: if_splits)

lemma get_contact_by_id_SomeD:
  "get_contact_by_id usr k d = Some c \<Longrightarrow> c \<in> set (contacts d) \<and> user_id c = uid usr \<and> cid c = k"
  unfolding get_contact_by_id_def by (auto dest: find_SomeD)

lemma get_contact_by_id_None_iff:
  "get_contact_by_id usr k d = None \<longleftrightarrow> (\<forall>c\<in>set (contacts d). cid c = k \<longrightarrow> user_id c \<noteq> uid usr)"
  unfolding get_contact_by_id_def by (auto simp: find_None_iff)

lemma get_after_update:
  assumes "get_contact_by_id usr k d = Some c"
  shows "get_contact_by_id usr k (snd (update usr k body d)) = Some (assign_fields body c)"
proof -
  let ?f = "\<lambda>r. if cid r = cid c then assign_fields body r else r"
  have "find (\<lambda>x. user_id x = uid usr \<and> cid x = k) (map ?f (contacts d))
      = map_option ?f (find (\<lambda>x. user_id x = uid usr \<and> cid x = k) (contacts d))"
    by (rule find_map_same) (simp add: assign_fields_def)
  with assms show ?thesis
    by (simp add: update_def get_contact_by_id_def)
qed

lemma get_after_set_favorite:
  assumes "get_contact_by_id usr k d = Some c"
  shows "get_contact_by_id usr k (snd (set_favorite usr k body d)) = Some (c\<lparr>is_favorite := favorite body\<rparr>)"
proof -
  let ?f = "\<lambda>r. if cid r = cid c then r\<lparr>is_favorite := favorite body\<rparr> else r"
  have "find (\<lambda>x. user_id x = uid usr \<and> cid x = k) (map ?f (contacts d))
      = map_option ?f (find (\<lambda>x. user_id x = uid usr \<and> cid x = k) (contacts d))"
    by (rule find_map_same) simp
  with assms show ?thesis
    by (simp add: set_favorite_def get_contact_by_id_def)
qed

lemma get_after_remove:
  assumes "get_contact_by_id usr k d = Some c"
  shows "get_contact_by_id other k (snd (remove usr k d)) = None"
proof -
  have k: "cid c = k" using assms by (simp add: get_contact_by_id_SomeD)
  have "find (\<lambda>x. user_id x = uid other \<and> cid x = k) (filter (\<lambda>r. cid r \<noteq> cid c) (contacts d)) = None"
    by (rule find_filter_None) (simp add: k)
  with assms show ?thesis
    by (simp add: remove_def get_contact_by_id_def)
qed

section \<open>Ownership along a sequence of calls\<close>

lemma contacts_create: "contacts (snd (create usr body d)) = contacts d @ [fst (create usr body d)]"
  by (simp add: create_def Let_def)

lemma fst_create:
  "cid (fst (create usr body d)) = contact_seq d" "user_id (fst (create usr body d)) = uid usr"
  by (simp_all add: create_def Let_def)

lemma ownership_assign_fields: "ownership (assign_fields body c) = ownership c"
  by (simp add: ownership_def assign_fields_def)

lemma ownership_update: "map ownership (contacts (snd (update usr k body d))) = map ownership (contacts d)"
  by (cases "get_contact_by_id usr k d")
     (auto simp: update_def ownership_assign_fields)

lemma ownership_set_favorite:
  "map ownership (contacts (snd (set_favorite usr k body d))) = map ownership (contacts d)"
  by (cases "get_contact_by_id usr k d")
     (auto simp: set_favorite_def ownership_def)

lemma ownership_remove:
  "set (map ownership (contacts (snd (remove usr k d)))) \<subseteq> set (map ownership (contacts d))"
  by (cases "get_contact_by_id usr k d") (auto simp: remove_def)

lemma ownership_step:
  "set (map ownership (contacts (step x d))) \<subseteq> set (map ownership (contacts d)) \<union> set (created x d)"
proof (cases x)
  case (Create usr body)
  then show ?thesis by (auto simp: contacts_create ownership_def fst_create)
next
  case (Update usr k body)
  then show ?thesis by (simp add: ownership_update)
next
  case (Remove usr k)
  then show ?thesis using ownership_remove [of usr k d] by simp
next
  case (Set_favorite usr k body)
  then show ?thesis by (simp add: ownership_set_favorite)
qed

lemma ownership_run:
  "set (map ownership (contacts (run ops d))) \<subseteq> set (map ownership (contacts d)) \<union> set (creations ops d)"
proof (induction ops arbitrary: d)
  case Nil
  then show ?case by simp
next
  case (Cons x xs)
  have "set (map ownership (contacts (run xs (step x d))))
      \<subseteq> set (map ownership (contacts (step x d))) \<union> set (creations xs (step x d))"
    by (rule Cons.IH)
  with ownership_step [of x d] show ?case
    by (simp only: run.simps creations.simps set_append) blast
qed

lemma contact_seq_step: "contact_seq d \<le> contact_seq (step x d)"
  by (cases x) (auto simp: create_def Let_def update_def remove_def set_favorite_def split: option.splits)

lemma contact_seq_step_Create: "contact_seq (step (Create usr body) d) = contact_seq d + 1"
  by (simp add: create_def Let_def)

lemma fresh_seq_iff: "fresh_seq d \<longleftrightarrow> (\<forall>p\<in>set (map ownership (contacts d)). fst p < contact_seq d)"
  by (auto simp: fresh_seq_def list_all_iff ownership_def)

lemma fresh_seq_step: "fresh_seq d \<Longrightarrow> fresh_seq (step x d)"
proof -
  assume f: "fresh_seq d"
  show ?thesis
    unfolding fresh_seq_iff
  proof
    fix p assume "p \<in> set (map ownership (contacts (step x d)))"
    with ownership_step [of x d]
    consider "p \<in> set (map ownership (contacts d))" | "p \<in> set (created x d)" by blast
    then show "fst p < contact_seq (step x d)"
    proof cases
      case 1
      with f have "fst p < contact_seq d" unfolding fresh_seq_iff by blast
      with contact_seq_step [of d x] show ?thesis by simp
    next
      case 2
      then show ?thesis by (cases x) (auto simp: fst_create create_def Let_def)
    qed
  qed
qed

lemma fresh_seq_run: "fresh_seq d \<Longrightarrow> fresh_seq (run ops d)"
  by (induction ops arbitrary: d) (auto simp: fresh_seq_step)

lemma creations_ge: "p \<in> set (creations ops d) \<Longrightarrow> contact_seq d \<le> fst p"
proof (induction ops arbitrary: d)
  case Nil
  then show ?case by simp
next
  case (Cons x xs)
  from Cons.prems consider "p \<in> set (created x d)" | "p \<in> set (creations xs (step x d))" by auto
  then show ?case
  proof cases
    case 1
    then show ?thesis by (cases x) (auto simp: fst_create)
  next
    case 2
    then have "contact_seq (step x d) \<le> fst p" by (rule Cons.IH)
    with contact_seq_step [of d x] show ?thesis by simp
  qed
qed

lemma creations_unique:
  "(k, u) \<in> set (creations ops d) \<Longrightarrow> (k, u') \<in> set (creations ops d) \<Longrightarrow> u = u'"
proof (induction ops arbitrary: d)
  case Nil
  then show ?case by simp
next
  case (Cons x xs)
  show ?case
  proof (cases "(k, u) \<in> set (created x d) \<or> (k, u') \<in> set (created x d)")
    case True
    then obtain usr body where x: "x = Create usr body" by (cases x) auto
    with True have k: "k = contact_seq d" by (auto simp: fst_create)
    have "\<not> (k, v) \<in> set (creations xs (step x d))" for v
      using creations_ge [of "(k, v)" xs "step x d"] k x
      by (auto simp: contact_seq_step_Create simp del: step.simps)
    with Cons.prems x show ?thesis by auto
  next
    case False
    with Cons.prems have "(k, u) \<in> set (creations xs (step x d))" "(k, u') \<in> set (creations xs (step x d))"
      by auto
    then show ?thesis by (rule Cons.IH)
  qed
qed

lemma created_owner:
  assumes f: "fresh_seq d" and c: "c \<in> set (contacts (run ops d))"
    and k: "(cid c, u) \<in> set (creations ops d)"
  shows "user_id c = u"
proof -
  have "ownership c \<in> set (map ownership (contacts (run ops d)))" using c by simp
  with ownership_run [of ops d]
  consider "ownership c \<in> set (map ownership (contacts d))" | "ownership c \<in> set (creations ops d)"
    by blast
  then show ?thesis
  proof cases
    case 1
    with f have "cid c < contact_seq d" by (auto simp: fresh_seq_iff ownership_def)
    with creations_ge [OF k] show ?thesis by simp
  next
    case 2
    then have "(cid c, user_id c) \<in> set (creations ops d)" by (simp add: ownership_def)
    then show ?thesis using k by (rule creations_unique)
  qed
qed

section \<open>Substrings and windows\<close>

lemma starts_with_iff: "starts_with s t \<longleftrightarrow> (\<exists>q. s = t @ q)"
  by (induction s t rule: starts_with.induct) auto

lemma contains_iff: "contains s t \<longleftrightarrow> (\<exists>p q. s = p @ t @ q)"
proof (induction s)
  case Nil
  then show ?case by simp
next
  case (Cons x xs)
  show ?case
  proof
    assume "contains (x # xs) t"
    then consider "starts_with (x # xs) t" | "contains xs t" by auto
    then show "\<exists>p q. x # xs = p @ t @ q"
    proof cases
      case 1
      then obtain q where "x # xs = t @ q" by (auto simp: starts_with_iff)
      then have "x # xs = [] @ t @ q" by simp
      then show ?thesis by blast
    next
      case 2
      then obtain p q where "xs = p @ t @ q" using Cons.IH by blast
      then have "x # xs = (x # p) @ t @ q" by simp
      then show ?thesis by blast
    qed
  next
    assume "\<exists>p q. x # xs = p @ t @ q"
    then obtain p q where pq: "x # xs = p @ t @ q" by blast
    show "contains (x # xs) t"
    proof (cases p)
      case Nil
      with pq have "starts_with (x # xs) t" by (auto simp: starts_with_iff)
      then show ?thesis by simp
    next
      case (Cons y p')
      with pq have "xs = p' @ t @ q" by simp
      then have "contains xs t" using Cons.IH by blast
      then show ?thesis by simp
    qed
  qed
qed

lemma matches_iff: "matches t field \<longleftrightarrow> (\<exists>p q. lower field = p @ lower t @ q)"
  by (simp add: matches_def contains_iff)

lemma valid_date_next_day: "valid_date dt \<Longrightarrow> valid_date (next_day dt)"
  by (auto simp: valid_date_def next_day_def days_in_month_def)

lemma valid_date_add_days: "valid_date dt \<Longrightarrow> valid_date (add_days dt n)"
  by (induction n arbitrary: dt) (simp_all add: valid_date_next_day)

lemma days_from_add_days: "days_from dt n = map (add_days dt) [0 ..< n]"
proof (induction n arbitrary: dt)
  case 0
  then show ?case by simp
next
  case (Suc n)
  have "[0 ..< Suc n] = 0 # map Suc [0 ..< n]"
    by (simp add: upt_conv_Cons map_Suc_upt del: upt_Suc)
  then have "map (add_days dt) [0 ..< Suc n] = dt # map (add_days (next_day dt)) [0 ..< n]"
    by (simp del: upt_Suc)
  with Suc.IH [of "next_day dt"] show ?case by simp
qed

lemma in_window_iff:
  "md \<in> set (map month_day (window today shift)) \<longleftrightarrow>
     (\<exists>k. 0 \<le> k \<and> k \<le> shift \<and> md = month_day (add_days today (nat k)))"
proof
  assume "md \<in> set (map month_day (window today shift))"
  then obtain n where n: "n < nat (shift + 1)" "md = month_day (add_days today n)"
    by (auto simp: window_def days_from_add_days)
  then have "0 \<le> int n \<and> int n \<le> shift \<and> md = month_day (add_days today (nat (int n)))"
    by auto
  then show "\<exists>k. 0 \<le> k \<and> k \<le> shift \<and> md = month_day (add_days today (nat k))" by blast
next
  assume "\<exists>k. 0 \<le> k \<and> k \<le> shift \<and> md = month_day (add_days today (nat k))"
  then obtain k where k: "0 \<le> k" "k \<le> shift" "md = month_day (add_days today (nat k))" by blast
  then have "nat k < nat (shift + 1)" by simp
  with k(3) show "md \<in> set (map month_day (window today shift))"
    by (auto simp: window_def days_from_add_days)
qed

lemma in_window_fields:
  "month_day b \<in> set (map month_day (window today shift)) \<longleftrightarrow>
     (\<exists>k. 0 \<le> k \<and> k \<le> shift \<and> month b = month (add_days today (nat k)) \<and>
          day b = day (add_days today (nat k)))"
  unfolding in_window_iff by (simp add: month_day_def)

section \<open>Properties of the contact repository\<close>

text \<open>
  Claim C6. For every contact body and every user, \<^verbatim>\<open>create\<close> followed by
  \<^verbatim>\<open>get_contact_by_id\<close> on the returned id, under the same user, returns the created
  record: its seven fields are the body's, its owner is the caller and its id is the
  one the storage generated. The storage's sequence is ahead of the ids in the table.
\<close>

theorem create_then_get:
  "fresh_seq d \<Longrightarrow>
     (case create usr body d of (c, d') \<Rightarrow>
        get_contact_by_id usr (cid c) d' = Some c \<and>
        firstname c = firstname body \<and> lastname c = lastname body \<and>
        email c = email body \<and> phone c = phone body \<and>
        birthday c = birthday body \<and> additional_info c = additional_info body \<and>
        is_favorite c = is_favorite body \<and>
        user_id c = uid usr \<and> cid c = contact_seq d)"
proof -
  assume f: "fresh_seq d"
  define c where "c = fst (create usr body d)"
  have nocoll: "\<And>x. x \<in> set (contacts d) \<Longrightarrow> \<not> (user_id x = uid usr \<and> cid x = contact_seq d)"
    using f by (auto simp: fresh_seq_def list_all_iff)
  have "find (\<lambda>x. user_id x = uid usr \<and> cid x = contact_seq d) (contacts d @ [c]) = Some c"
    by (rule find_append_fresh) (use nocoll in \<open>auto simp: c_def create_def Let_def\<close>)
  then show ?thesis
    by (simp add: create_def Let_def get_contact_by_id_def c_def)
qed

theorem create_then_get_witness:
  "fresh_seq db_a \<and>
   get_contact_by_id user_b (cid (fst (create user_b carol db_a))) (snd (create user_b carol db_a))
     = Some (fst (create user_b carol db_a)) \<and>
   firstname (fst (create user_b carol db_a)) = ''Carol'' \<and>
   lastname (fst (create user_b carol db_a)) = ''Smythe'' \<and>
   user_id (fst (create user_b carol db_a)) = 2 \<and>
   cid (fst (create user_b carol db_a)) = 4"
proof -
  have h: "fresh_seq db_a" by code_simp
  note t = create_then_get [OF h, of user_b carol, unfolded case_prod_beta]
  have s: "contact_seq db_a = 4"
    by (simp add: db_a_def empty_db_def create_def Let_def)
  have 1: "get_contact_by_id user_b (cid (fst (create user_b carol db_a)))
      (snd (create user_b carol db_a)) = Some (fst (create user_b carol db_a))"
    using t by (rule conjunct1)
  have 2: "firstname (fst (create user_b carol db_a)) = ''Carol''"
    using t by (simp add: carol_def)
  have 3: "lastname (fst (create user_b carol db_a)) = ''Smythe''"
    using t by (simp add: carol_def)
  have 4: "user_id (fst (create user_b carol db_a)) = 2"
    using t by (simp add: user_b_def)
  have 5: "cid (fst (create user_b carol db_a)) = 4"
    using t s by simp
  from h 1 2 3 4 5 show ?thesis by (intro conjI)
qed

text \<open>
  Claim C3. For an existing owned contact, \<^verbatim>\<open>update\<close> returns the contact with all seven
  mutable fields replaced by the body's values, only the id and the owner kept, and a
  later lookup returns the same record; when no row of that id belongs to the caller,
  \<^verbatim>\<open>update\<close> returns no value and leaves the database as it was.
\<close>

theorem update_full_replace:
  "(get_contact_by_id usr k d = Some c \<longrightarrow>
      (case update usr k body d of (r, d') \<Rightarrow>
         r = Some \<lparr>firstname = firstname body, lastname = lastname body, email = email body,
                   phone = phone body, birthday = birthday body,
                   additional_info = additional_info body, is_favorite = is_favorite body,
                   cid = cid c, user_id = user_id c\<rparr> \<and>
         get_contact_by_id usr k d' = r)) \<and>
   ((\<forall>c\<in>set (contacts d). cid c = k \<longrightarrow> user_id c \<noteq> uid usr) \<longrightarrow>
      update usr k body d = (None, d))"
proof (intro conjI impI)
  assume g: "get_contact_by_id usr k d = Some c"
  have a: "assign_fields body c =
      \<lparr>firstname = firstname body, lastname = lastname body, email = email body,
       phone = phone body, birthday = birthday body,
       additional_info = additional_info body, is_favorite = is_favorite body,
       cid = cid c, user_id = user_id c\<rparr>"
    by (cases c) (simp add: assign_fields_def)
  have "fst (update usr k body d) = Some (assign_fields body c)"
    using g by (simp add: update_def)
  with get_after_update [OF g, of body] a
  show "case update usr k body d of (r, d') \<Rightarrow>
         r = Some \<lparr>firstname = firstname body, lastname = lastname body, email = email body,
                   phone = phone body, birthday = birthday body,
                   additional_info = additional_info body, is_favorite = is_favorite body,
                   cid = cid c, user_id = user_id c\<rparr> \<and>
         get_contact_by_id usr k d' = r"
    by (simp add: case_prod_beta)
next
  assume "\<forall>c\<in>set (contacts d). cid c = k \<longrightarrow> user_id c \<noteq> uid usr"
  then have "get_contact_by_id usr k d = None"
    by (simp add: get_contact_by_id_None_iff)
  then show "update usr k body d = (None, d)"
    by (simp add: update_def)
qed


theorem update_full_replace_witness:
  "get_contact_by_id user_a 2 db_a =
     Some \<lparr>firstname = ''Bob'', lastname = ''Jones'', email = ''bobsmith@x.com'',
            phone = ''555-0102'', birthday = \<lparr>year = 1985, month = 1, day = 5\<rparr>,
            additional_info = ''colleague'', is_favorite = True, cid = 2, user_id = 1\<rparr> \<and>
   fst (update user_a 2 carol db_a) =
     Some \<lparr>firstname = ''Carol'', lastname = ''Smythe'', email = ''carol@x.com'',
            phone = ''555-0103'', birthday = \<lparr>year = 2000, month = 7, day = 14\<rparr>,
            additional_info = ''neighbour'', is_favorite = False, cid = 2, user_id = 1\<rparr> \<and>
   get_contact_by_id user_a 2 (snd (update user_a 2 carol db_a)) = fst (update user_a 2 carol db_a) \<and>
   \<not> (\<exists>c\<in>set (contacts db_a). cid c = 2 \<and> user_id c = uid user_b) \<and>
   update user_b 2 carol db_a = (None, db_a)"
proof -
  let ?c = "\<lparr>firstname = ''Bob'', lastname = ''Jones'', email = ''bobsmith@x.com'',
            phone = ''555-0102'', birthday = \<lparr>year = 1985, month = 1, day = 5\<rparr>,
            additional_info = ''colleague'', is_favorite = True, cid = 2, user_id = (1::int)\<rparr>"
  have g: "get_contact_by_id user_a 2 db_a = Some ?c" by code_simp
  have n: "\<not> (\<exists>c\<in>set (contacts db_a). cid c = 2 \<and> user_id c = uid user_b)" by code_simp
  note t1 = update_full_replace [of user_a 2 db_a ?c carol, unfolded case_prod_beta, THEN conjunct1, rule_format, OF g]
  note t2 = update_full_replace [of user_b 2 db_a ?c carol, THEN conjunct2, rule_format]
  have 1: "fst (update user_a 2 carol db_a) =
     Some \<lparr>firstname = ''Carol'', lastname = ''Smythe'', email = ''carol@x.com'',
            phone = ''555-0103'', birthday = \<lparr>year = 2000, month = 7, day = 14\<rparr>,
            additional_info = ''neighbour'', is_favorite = False, cid = 2, user_id = 1\<rparr>"
    using t1 by (simp add: carol_def)
  have 2: "get_contact_by_id user_a 2 (snd (update user_a 2 carol db_a)) = fst (update user_a 2 carol db_a)"
    using t1 by (rule conjunct2)
  have 3: "update user_b 2 carol db_a = (None, db_a)"
    using n by (intro t2) blast
  from g 1 2 n 3 show ?thesis by (intro conjI)
qed

text \<open>
  Claim C5. For an existing owned contact, \<^verbatim>\<open>set_favorite\<close> sets the favorite flag to
  the given value and leaves firstname, lastname, email, phone, birthday,
  additional_info, id and owner as they were, in the returned contact and in the
  stored one.
\<close>

theorem set_favorite_only_flag:
  "get_contact_by_id usr k d = Some c \<Longrightarrow>
     (case set_favorite usr k body d of (r, d') \<Rightarrow>
        (\<exists>c'. r = Some c' \<and> get_contact_by_id usr k d' = Some c' \<and>
           is_favorite c' = favorite body \<and>
           firstname c' = firstname c \<and> lastname c' = lastname c \<and> email c' = email c \<and>
           phone c' = phone c \<and> birthday c' = birthday c \<and>
           additional_info c' = additional_info c \<and> cid c' = cid c \<and> user_id c' = user_id c))"
proof -
  assume g: "get_contact_by_id usr k d = Some c"
  have "fst (set_favorite usr k body d) = Some (c\<lparr>is_favorite := favorite body\<rparr>)"
    using g by (simp add: set_favorite_def)
  with get_after_set_favorite [OF g, of body] show ?thesis
    by (simp add: case_prod_beta)
qed

theorem set_favorite_only_flag_witness:
  "get_contact_by_id user_a 1 db_a =
     Some \<lparr>firstname = ''Anna'', lastname = ''Smith'', email = ''anna@x.com'',
            phone = ''555-0101'', birthday = \<lparr>year = 1990, month = 12, day = 25\<rparr>,
            additional_info = ''friend'', is_favorite = False, cid = 1, user_id = 1\<rparr> \<and>
   (\<exists>c'. fst (set_favorite user_a 1 \<lparr>favorite = True\<rparr> db_a) = Some c' \<and>
         get_contact_by_id user_a 1 (snd (set_favorite user_a 1 \<lparr>favorite = True\<rparr> db_a)) = Some c' \<and>
         is_favorite c' = True \<and> firstname c' = ''Anna'' \<and> lastname c' = ''Smith'' \<and>
         email c' = ''anna@x.com'' \<and> phone c' = ''555-0101'' \<and>
         birthday c' = \<lparr>year = 1990, month = 12, day = 25\<rparr> \<and>
         additional_info c' = ''friend'' \<and> cid c' = 1 \<and> user_id c' = 1)"
proof -
  let ?c = "\<lparr>firstname = ''Anna'', lastname = ''Smith'', email = ''anna@x.com'',
            phone = ''555-0101'', birthday = \<lparr>year = 1990, month = 12, day = 25\<rparr>,
            additional_info = ''friend'', is_favorite = False, cid = 1, user_id = (1::int)\<rparr>"
  have g: "get_contact_by_id user_a 1 db_a = Some ?c" by code_simp
  note t = set_favorite_only_flag [OF g, of "\<lparr>favorite = True\<rparr>", unfolded case_prod_beta]
  from t have "\<exists>c'. fst (set_favorite user_a 1 \<lparr>favorite = True\<rparr> db_a) = Some c' \<and>
         get_contact_by_id user_a 1 (snd (set_favorite user_a 1 \<lparr>favorite = True\<rparr> db_a)) = Some c' \<and>
         is_favorite c' = True \<and> firstname c' = ''Anna'' \<and> lastname c' = ''Smith'' \<and>
         email c' = ''anna@x.com'' \<and> phone c' = ''555-0101'' \<and>
         birthday c' = \<lparr>year = 1990, month = 12, day = 25\<rparr> \<and>
         additional_info c' = ''friend'' \<and> cid c' = 1 \<and> user_id c' = 1"
    by simp
  with g show ?thesis by (intro conjI)
qed

text \<open>
  Claim C7. For an owned contact, \<^verbatim>\<open>remove\<close> returns the contact it found and deletes
  it, so that a later \<^verbatim>\<open>get_contact_by_id\<close> on the same id returns nothing; when no row
  of that id belongs to the caller, \<^verbatim>\<open>remove\<close> returns no value and leaves the database
  as it was.
\<close>

theorem remove_deletes:
  "(get_contact_by_id usr k d = Some c \<longrightarrow>
      (case remove usr k d of (r, d') \<Rightarrow>
         r = Some c \<and> c \<notin> set (contacts d') \<and> get_contact_by_id usr k d' = None)) \<and>
   ((\<forall>c\<in>set (contacts d). cid c = k \<longrightarrow> user_id c \<noteq> uid usr) \<longrightarrow>
      remove usr k d = (None, d))"
proof (intro conjI impI)
  assume g: "get_contact_by_id usr k d = Some c"
  have "fst (remove usr k d) = Some c"
    using g by (simp add: remove_def)
  moreover have "c \<notin> set (contacts (snd (remove usr k d)))"
    using g by (simp add: remove_def)
  ultimately show "case remove usr k d of (r, d') \<Rightarrow>
         r = Some c \<and> c \<notin> set (contacts d') \<and> get_contact_by_id usr k d' = None"
    using get_after_remove [OF g, of usr] by (simp add: case_prod_beta)
next
  assume "\<forall>c\<in>set (contacts d). cid c = k \<longrightarrow> user_id c \<noteq> uid usr"
  then have "get_contact_by_id usr k d = None"
    by (simp add: get_contact_by_id_None_iff)
  then show "remove usr k d = (None, d)"
    by (simp add: remove_def)
qed

theorem remove_deletes_witness:
  "get_contact_by_id user_a 3 db_a =
     Some \<lparr>firstname = ''Carol'', lastname = ''Smythe'', email = ''carol@x.com'',
            phone = ''555-0103'', birthday = \<lparr>year = 2000, month = 7, day = 14\<rparr>,
            additional_info = ''neighbour'', is_favorite = False, cid = 3, user_id = 1\<rparr> \<and>
   fst (remove user_a 3 db_a) = get_contact_by_id user_a 3 db_a \<and>
   get_contact_by_id user_a 3 (snd (remove user_a 3 db_a)) = None \<and>
   \<not> (\<exists>c\<in>set (contacts db_a). cid c = 3 \<and> user_id c = uid user_b) \<and>
   remove user_b 3 db_a = (None, db_a)"
proof -
  let ?c = "\<lparr>firstname = ''Carol'', lastname = ''Smythe'', email = ''carol@x.com'',
            phone = ''555-0103'', birthday = \<lparr>year = 2000, month = 7, day = 14\<rparr>,
            additional_info = ''neighbour'', is_favorite = False, cid = 3, user_id = (1::int)\<rparr>"
  have g: "get_contact_by_id user_a 3 db_a = Some ?c" by code_simp
  have n: "\<not> (\<exists>c\<in>set (contacts db_a). cid c = 3 \<and> user_id c = uid user_b)" by code_simp
  note t1 = remove_deletes [of user_a 3 db_a ?c, unfolded case_prod_beta, THEN conjunct1, rule_format, OF g]
  note t2 = remove_deletes [of user_b 3 db_a ?c, THEN conjunct2, rule_format]
  have 1: "fst (remove user_a 3 db_a) = get_contact_by_id user_a 3 db_a"
    using t1 g by simp
  have 2: "get_contact_by_id user_a 3 (snd (remove user_a 3 db_a)) = None"
    using t1 by simp
  have 3: "remove user_b 3 db_a = (None, db_a)"
    using n by (intro t2) blast
  from g 1 2 n 3 show ?thesis by (intro conjI)
qed

text \<open>
  Claim C10. Every contact mutation keeps identity and ownership: \<^verbatim>\<open>create\<close> sets
  \<^verbatim>\<open>user_id\<close> to the caller's id; \<^verbatim>\<open>update\<close> and \<^verbatim>\<open>set_favorite\<close> change no row's id or
  owner; after any sequence of calls every stored row has the id and owner of a row of
  the initial table or of a creation in the sequence, and a stored contact whose id was
  created in the sequence belongs to the user who created it.
\<close>

theorem ownership_preserved:
  "user_id (fst (create usr body d)) = uid usr \<and>
   map ownership (contacts (snd (update usr k body d))) = map ownership (contacts d) \<and>
   map ownership (contacts (snd (set_favorite usr k flag d))) = map ownership (contacts d) \<and>
   set (map ownership (contacts (run ops d)))
     \<subseteq> set (map ownership (contacts d)) \<union> set (creations ops d) \<and>
   (fresh_seq d \<longrightarrow>
      (\<forall>c\<in>set (contacts (run ops d)). \<forall>u. (cid c, u) \<in> set (creations ops d) \<longrightarrow> user_id c = u))"
  using fst_create(2) ownership_update ownership_set_favorite ownership_run created_owner
  by (intro conjI impI ballI allI) blast+

theorem ownership_preserved_witness:
  "fresh_seq empty_db \<and>
   creations [Create user_a anna, Create user_b bob, Update user_b 1 carol,
              Set_favorite user_a 1 \<lparr>favorite = True\<rparr>] empty_db = [(1, 1), (2, 2)] \<and>
   map ownership (contacts (run [Create user_a anna, Create user_b bob, Update user_b 1 carol,
              Set_favorite user_a 1 \<lparr>favorite = True\<rparr>] empty_db)) = [(1, 1), (2, 2)] \<and>
   \<not> (\<exists>c\<in>set (contacts (run [Create user_a anna, Create user_b bob, Update user_b 1 carol,
              Set_favorite user_a 1 \<lparr>favorite = True\<rparr>] empty_db)).
        \<exists>u. (cid c, u) \<in> set (creations [Create user_a anna, Create user_b bob,
              Update user_b 1 carol, Set_favorite user_a 1 \<lparr>favorite = True\<rparr>] empty_db) \<and>
             user_id c \<noteq> u)"
proof -
  let ?ops = "[Create user_a anna, Create user_b bob, Update user_b 1 carol,
              Set_favorite user_a 1 \<lparr>favorite = True\<rparr>]"
  have f: "fresh_seq empty_db" by code_simp
  have c: "creations ?ops empty_db = [(1, 1), (2, 2)]" by code_simp
  have m: "map ownership (contacts (run ?ops empty_db)) = [(1, 1), (2, 2)]" by code_simp
  note t = ownership_preserved [of user_a anna empty_db 1 "\<lparr>favorite = True\<rparr>" ?ops]
  from t f have "\<forall>c\<in>set (contacts (run ?ops empty_db)).
      \<forall>u. (cid c, u) \<in> set (creations ?ops empty_db) \<longrightarrow> user_id c = u"
    by blast
  then have "\<not> (\<exists>c\<in>set (contacts (run ?ops empty_db)).
        \<exists>u. (cid c, u) \<in> set (creations ?ops empty_db) \<and> user_id c \<noteq> u)"
    by blast
  with f c m show ?thesis by (intro conjI)
qed

text \<open>
  Claim C1. A contact that user A created is never returned by \<^verbatim>\<open>get_contact_by_id\<close>
  under a user B with a different id: right after the creation and after any further
  sequence of calls by any users, whether or not the contact still exists under A, the
  lookup under B on that contact's id returns nothing.
\<close>

theorem get_contact_by_id_other_user:
  assumes f: "fresh_seq d" and ne: "uid b \<noteq> uid a"
  shows "get_contact_by_id b (cid (fst (create a body d))) (run ops (snd (create a body d))) = None"
proof -
  let ?d = "snd (create a body d)" and ?k = "cid (fst (create a body d))"
  have f': "fresh_seq ?d" using fresh_seq_step [OF f, of "Create a body"] by simp
  have k: "(?k, uid a) \<in> set (creations (Create a body # ops) d)" by simp
  have run: "run ops ?d = run (Create a body # ops) d" by simp
  show ?thesis
    unfolding get_contact_by_id_None_iff
  proof (intro ballI impI)
    fix c assume c: "c \<in> set (contacts (run ops ?d))" and "cid c = ?k"
    with k have "(cid c, uid a) \<in> set (creations (Create a body # ops) d)" by simp
    with f c have "user_id c = uid a" unfolding run by (rule created_owner)
    with ne show "user_id c \<noteq> uid b" by simp
  qed
qed

theorem get_contact_by_id_other_user_witness:
  "fresh_seq empty_db \<and> uid user_b \<noteq> uid user_a \<and>
   cid (fst (create user_a anna empty_db)) = 1 \<and>
   get_contact_by_id user_a 1 (snd (create user_a anna empty_db)) \<noteq> None \<and>
   get_contact_by_id user_b 1 (run [] (snd (create user_a anna empty_db))) = None \<and>
   get_contact_by_id user_b 1
     (run [Create user_b bob, Remove user_a 1, Create user_b carol, Update user_b 1 carol]
        (snd (create user_a anna empty_db))) = None"
proof -
  have f: "fresh_seq empty_db" by code_simp
  have ne: "uid user_b \<noteq> uid user_a" by code_simp
  have k: "cid (fst (create user_a anna empty_db)) = 1" by code_simp
  have g: "get_contact_by_id user_a 1 (snd (create user_a anna empty_db)) \<noteq> None" by code_simp
  note t = get_contact_by_id_other_user [OF f ne, of anna, unfolded k]
  from f ne k g t [of "[]"]
    t [of "[Create user_b bob, Remove user_a 1, Create user_b carol, Update user_b 1 carol]"]
  show ?thesis by (intro conjI)
qed

section \<open>Properties of the user repository\<close>

text \<open>
  Claim C4 says that every operation returns no value, and never raises, when the entity
  it looks up does not exist, the user operations included. With no user of the given
  email, \<^verbatim>\<open>get_user_by_email\<close> returns \<^verbatim>\<open>None\<close>, and \<^verbatim>\<open>confirmed_email\<close> and \<^verbatim>\<open>update_avatar\<close>
  raise \<^verbatim>\<open>AttributeError\<close> on it, where the contact operations test their lookup first.
\<close>

theorem user_lookup_none_raises:
  "get_user_by_email ''nobody@example.com'' empty_db = None \<and>
   confirmed_email ''nobody@example.com'' empty_db = Inl AttributeError \<and>
   update_avatar ''nobody@example.com'' ''http://img'' empty_db = Inl AttributeError"
  by (simp add: get_user_by_email_def confirmed_email_def update_avatar_def empty_db_def)

section \<open>Properties of the search\<close>

text \<open>
  Claim C8. \<^verbatim>\<open>partial_match(text)\<close> returns exactly the owned contacts in which the text,
  letter case ignored, is a substring of firstname, lastname, email or phone: the route
  returns the rows of the caller for which the lowered field splits into a part before,
  the lowered text and a part after. ``smith'' matches the lastname ``Smith'' and the
  email ``bobsmith@x.com'' and does not match ``Smythe''.
\<close>

theorem partial_match_exact:
  "partial_info_route partial_info d usr =
     Inr (filter (\<lambda>c. user_id c = uid usr \<and>
                    ((\<exists>p q. lower (firstname c) = p @ lower partial_info @ q) \<or>
                     (\<exists>p q. lower (lastname c) = p @ lower partial_info @ q) \<or>
                     (\<exists>p q. lower (email c) = p @ lower partial_info @ q) \<or>
                     (\<exists>p q. lower (phone c) = p @ lower partial_info @ q)))
            (contacts d)) \<and>
   matches ''smith'' ''Smith'' \<and> matches ''smith'' ''bobsmith@x.com'' \<and>
   \<not> matches ''smith'' ''Smythe'' \<and>
   map lastname (partial_match user_a ''smith'' db_a) = [''Smith'', ''Jones''] \<and>
   partial_match user_b ''smith'' db_a = []"
proof -
  have 1: "partial_info_route partial_info d usr =
     Inr (filter (\<lambda>c. user_id c = uid usr \<and>
                    ((\<exists>p q. lower (firstname c) = p @ lower partial_info @ q) \<or>
                     (\<exists>p q. lower (lastname c) = p @ lower partial_info @ q) \<or>
                     (\<exists>p q. lower (email c) = p @ lower partial_info @ q) \<or>
                     (\<exists>p q. lower (phone c) = p @ lower partial_info @ q)))
            (contacts d))"
    by (simp add: partial_info_route_def find_contacts_by_partial_info_def partial_match_def
        matches_iff)
  have 2: "matches ''smith'' ''Smith''" by code_simp
  have 3: "matches ''smith'' ''bobsmith@x.com''" by code_simp
  have 4: "\<not> matches ''smith'' ''Smythe''" by code_simp
  have 5: "map lastname (partial_match user_a ''smith'' db_a) = [''Smith'', ''Jones'']" by code_simp
  have 6: "partial_match user_b ''smith'' db_a = []" by code_simp
  from 1 2 3 4 5 6 show ?thesis by (intro conjI)
qed

text \<open>
  Claim C2. \<^verbatim>\<open>birthday_window(shift_days)\<close> returns exactly the owned contacts whose
  birthday has the month and day of one of the days today, today + 1, ..., today +
  shift_days, also when these days run into the next year: the day after 31 December is
  1 January of the next year, and from 20 December with a shift of 40 the window ends on
  29 January and holds the birthdays of 25 December and of 5 January.
\<close>

theorem birthday_window_exact:
  "birthday_route today shift d usr =
     Inr (filter (\<lambda>c. user_id c = uid usr \<and>
                    (\<exists>k. 0 \<le> k \<and> k \<le> shift \<and>
                         month (birthday c) = month (add_days today (nat k)) \<and>
                         day (birthday c) = day (add_days today (nat k))))
            (contacts d)) \<and>
   add_days \<lparr>year = y, month = 12, day = 31\<rparr> 1 = \<lparr>year = y + 1, month = 1, day = 1\<rparr> \<and>
   add_days \<lparr>year = 2023, month = 12, day = 20\<rparr> 40 = \<lparr>year = 2024, month = 1, day = 29\<rparr> \<and>
   map (\<lambda>c. month_day (birthday c))
     (birthday_window \<lparr>year = 2023, month = 12, day = 20\<rparr> user_a 40 db_a) = [(12, 25), (1, 5)]"
proof -
  have 0: "add_days \<lparr>year = y, month = 12, day = 31\<rparr> 1 = \<lparr>year = y + 1, month = 1, day = 1\<rparr>"
    by (simp add: next_day_def days_in_month_def)
  have 1: "birthday_route today shift d usr =
     Inr (filter (\<lambda>c. user_id c = uid usr \<and>
                    (\<exists>k. 0 \<le> k \<and> k \<le> shift \<and>
                         month (birthday c) = month (add_days today (nat k)) \<and>
                         day (birthday c) = day (add_days today (nat k))))
            (contacts d))"
    unfolding birthday_route_def get_birthday_list_def birthday_window_def in_window_fields
    by simp
  have 2: "add_days \<lparr>year = 2023, month = 12, day = 20\<rparr> 40 = \<lparr>year = 2024, month = 1, day = 29\<rparr>"
    by code_simp
  have 3: "map (\<lambda>c. month_day (birthday c))
     (birthday_window \<lparr>year = 2023, month = 12, day = 20\<rparr> user_a 40 db_a) = [(12, 25), (1, 5)]"
    by code_simp
  from 1 0 2 3 show ?thesis by (intro conjI)
qed

text \<open>
  Claim C9. The birthday search never signals absence for an empty result: the route
  returns the list of the repository function as a normal value, the empty list when no
  owned contact falls in the window, and it raises its 404 exactly when the repository
  function returns \<^verbatim>\<open>None\<close>, which the function of the spec never does. In the spec's
  scenario, user A with one contact born on 25 December gets that contact on
  20 December with a shift of 10, and user B gets the empty list.
\<close>

theorem birthday_route_empty:
  "birthday_route today shift d usr = Inr (birthday_window today usr shift d) \<and>
   (\<not> (\<exists>c\<in>set (contacts d). user_id c = uid usr \<and>
          (\<exists>k. 0 \<le> k \<and> k \<le> shift \<and>
               month_day (birthday c) = month_day (add_days today (nat k)))) \<longrightarrow>
      birthday_route today shift d usr = Inr []) \<and>
   ((\<exists>e. get_birthday_list repo shift d usr = Inl e) \<longleftrightarrow> repo usr shift d = None) \<and>
   (\<forall>e. get_birthday_list repo shift d usr = Inl e \<longrightarrow> e = HTTPException 404 ''Not Found'')"
proof (intro conjI impI allI)
  show r: "birthday_route today shift d usr = Inr (birthday_window today usr shift d)"
    by (simp add: birthday_route_def get_birthday_list_def)
  show "birthday_route today shift d usr = Inr []"
    if "\<not> (\<exists>c\<in>set (contacts d). user_id c = uid usr \<and>
          (\<exists>k. 0 \<le> k \<and> k \<le> shift \<and>
               month_day (birthday c) = month_day (add_days today (nat k))))"
  proof -
    from that have "birthday_window today usr shift d = []"
      unfolding birthday_window_def in_window_iff filter_empty_conv by blast
    with r show ?thesis by simp
  qed
  show "(\<exists>e. get_birthday_list repo shift d usr = Inl e) \<longleftrightarrow> repo usr shift d = None"
    by (cases "repo usr shift d") (simp_all add: get_birthday_list_def)
  show "e = HTTPException 404 ''Not Found''" if "get_birthday_list repo shift d usr = Inl e" for e
    using that by (cases "repo usr shift d") (simp_all add: get_birthday_list_def)
qed

theorem birthday_route_empty_witness:
  "contacts (snd (create user_a anna empty_db)) =
     [\<lparr>firstname = ''Anna'', lastname = ''Smith'', email = ''anna@x.com'',
       phone = ''555-0101'', birthday = \<lparr>year = 1990, month = 12, day = 25\<rparr>,
       additional_info = ''friend'', is_favorite = False, cid = 1, user_id = 1\<rparr>] \<and>
   birthday_route \<lparr>year = 2023, month = 12, day = 20\<rparr> 10 (snd (create user_a anna empty_db)) user_a =
     Inr (contacts (snd (create user_a anna empty_db))) \<and>
   \<not> (\<exists>c\<in>set (contacts (snd (create user_a anna empty_db))). user_id c = uid user_b \<and>
          (\<exists>k. 0 \<le> k \<and> k \<le> 10 \<and>
               month_day (birthday c) =
               month_day (add_days \<lparr>year = 2023, month = 12, day = 20\<rparr> (nat k)))) \<and>
   birthday_route \<lparr>year = 2023, month = 12, day = 20\<rparr> 10 (snd (create user_a anna empty_db)) user_b =
     Inr []"
proof -
  let ?d = "snd (create user_a anna empty_db)" and ?t = "\<lparr>year = 2023, month = 12, day = 20\<rparr>"
  have 1: "contacts ?d =
     [\<lparr>firstname = ''Anna'', lastname = ''Smith'', email = ''anna@x.com'',
       phone = ''555-0101'', birthday = \<lparr>year = 1990, month = 12, day = 25\<rparr>,
       additional_info = ''friend'', is_favorite = False, cid = 1, user_id = 1\<rparr>]"
    by code_simp
  have 2: "birthday_route ?t 10 ?d user_a = Inr (contacts ?d)" by code_simp
  have n: "\<not> (\<exists>c\<in>set (contacts ?d). user_id c = uid user_b \<and>
          (\<exists>k. 0 \<le> k \<and> k \<le> 10 \<and> month_day (birthday c) = month_day (add_days ?t (nat k))))"
    unfolding 1 by (simp add: user_b_def)
  note t = birthday_route_empty [of ?t 10 ?d user_b, THEN conjunct2, THEN conjunct1, rule_format, OF n]
  from 1 2 n t show ?thesis by (intro conjI)
qed

end
